theory Spec2Isabelle
  imports Main "HOL-Library.Word" "HOL-Library.FSet"
begin

unbundle bit_operations_syntax

section \<open>Python values used by the program\<close>

text \<open>
  Text is modelled as \<^typ>\<open>string\<close>, one \<^typ>\<open>char\<close> per character; the program's
  protocol text is ASCII, where a character and its UTF-8 byte coincide.
  Exceptions are values of \<open>py_error\<close>; a function that can raise returns
  \<open>py_error + 'a\<close> with \<open>Inl\<close> for the exception.
\<close>

datatype py_error = IndexError | ValueError | BrokenPipeError | TimeoutError | AttributeError

text \<open>\<open>xs[i]\<close>: negative indices count from the end, anything else out of range raises.\<close>

definition py_index :: "'a list \<Rightarrow> int \<Rightarrow> nat option" where
  "py_index xs i =
     (let n = int (length xs); j = (if i < 0 then n + i else i)
      in if 0 \<le> j \<and> j < n then Some (nat j) else None)"

definition py_get :: "'a list \<Rightarrow> int \<Rightarrow> py_error + 'a" where
  "py_get xs i = (case py_index xs i of None \<Rightarrow> Inl IndexError | Some j \<Rightarrow> Inr (xs ! j))"

text \<open>\<open>xs[i] = v\<close>\<close>

definition py_set :: "'a list \<Rightarrow> int \<Rightarrow> 'a \<Rightarrow> py_error + 'a list" where
  "py_set xs i v = (case py_index xs i of None \<Rightarrow> Inl IndexError | Some j \<Rightarrow> Inr (xs[j := v]))"

text \<open>\<open>grid[r][c]\<close> and \<open>grid[r][c] = v\<close> on a list of rows.\<close>

definition grid_get :: "'a list list \<Rightarrow> int \<Rightarrow> int \<Rightarrow> py_error + 'a" where
  "grid_get g r c = (case py_get g r of Inl e \<Rightarrow> Inl e | Inr rw \<Rightarrow> py_get rw c)"

definition grid_set :: "'a list list \<Rightarrow> int \<Rightarrow> int \<Rightarrow> 'a \<Rightarrow> py_error + 'a list list" where
  "grid_set g r c v =
     (case py_index g r of None \<Rightarrow> Inl IndexError
      | Some i \<Rightarrow> (case py_set (g ! i) c v of Inl e \<Rightarrow> Inl e | Inr rw \<Rightarrow> Inr (g[i := rw])))"

subsection \<open>Strings\<close>

text \<open>\<open>str.isspace\<close> on an ASCII character: tab, newline, VT, FF, CR, FS..US and space.\<close>

definition py_isspace :: "char \<Rightarrow> bool" where
  "py_isspace c = (let n = (of_char c :: nat) in (9 \<le> n \<and> n \<le> 13) \<or> (28 \<le> n \<and> n \<le> 32))"

definition py_lstrip :: "string \<Rightarrow> string" where
  "py_lstrip s = dropWhile py_isspace s"

definition py_rstrip :: "string \<Rightarrow> string" where
  "py_rstrip s = rev (dropWhile py_isspace (rev s))"

text \<open>\<open>s.strip()\<close>\<close>

definition py_strip :: "string \<Rightarrow> string" where
  "py_strip s = py_rstrip (py_lstrip s)"

definition upper_char :: "char \<Rightarrow> char" where
  "upper_char c = (let n = (of_char c :: int) in if 97 \<le> n \<and> n \<le> 122 then char_of (n - 32) else c)"


text \<open>\<open>s.upper()\<close> and \<open>s.lower()\<close>\<close>

definition py_upper :: "string \<Rightarrow> string" where
  "py_upper s = map upper_char s"


text \<open>\<open>s.startswith(p)\<close>\<close>

definition startswith :: "string \<Rightarrow> string \<Rightarrow> bool" where
  "startswith s p = (take (length p) s = p)"

text \<open>\<open>ord(c)\<close>\<close>

definition ord :: "char \<Rightarrow> int" where
  "ord c = of_char c"

text \<open>\<open>chr(n)\<close> for a code point below 256.\<close>

definition chr :: "int \<Rightarrow> char" where
  "chr n = char_of n"

text \<open>The value of a digit or letter in a numeral: \<open>0-9\<close>, then \<open>a-z\<close> or \<open>A-Z\<close> for 10 to 35.\<close>

definition digit_val :: "char \<Rightarrow> nat option" where
  "digit_val c =
     (let n = (of_char c :: nat) in
      if 48 \<le> n \<and> n \<le> 57 then Some (n - 48)
      else if 97 \<le> n \<and> n \<le> 122 then Some (n - 87)
      else if 65 \<le> n \<and> n \<le> 90 then Some (n - 55)
      else None)"

text \<open>
  The digits of an integer literal as \<open>int(s, base)\<close> reads them: at least one digit,
  single underscores only between digits. \<open>prev\<close> says that the previous character
  was a digit.
\<close>

fun digits_val :: "nat \<Rightarrow> nat \<Rightarrow> bool \<Rightarrow> string \<Rightarrow> nat option" where
  "digits_val b acc prev [] = (if prev then Some acc else None)"
| "digits_val b acc prev (c # cs) =
     (if c = CHR ''_'' then (if prev \<and> cs \<noteq> [] then digits_val b acc False cs else None)
      else (case digit_val c of
              None \<Rightarrow> None
            | Some d \<Rightarrow> if d < b then digits_val b (acc * b + d) True cs else None))"

text \<open>
  \<open>int(s, base)\<close> for base 10 or 16: surrounding whitespace, an optional sign, for
  base 16 an optional \<open>0x\<close> prefix (an underscore may follow it), then the digits.
  Anything else raises \<open>ValueError\<close>.
\<close>

definition py_int :: "nat \<Rightarrow> string \<Rightarrow> py_error + int" where
  "py_int b s =
     (let t = py_strip s;
          neg = (t \<noteq> [] \<and> hd t = CHR ''-'');
          u = (if t \<noteq> [] \<and> (hd t = CHR ''+'' \<or> hd t = CHR ''-'') then tl t else t);
          v = (if b = 16 \<and> (startswith u ''0x'' \<or> startswith u ''0X'')
               then (if startswith (drop 2 u) ''_'' then drop 3 u else drop 2 u) else u)
      in case digits_val b 0 False v of
           None \<Rightarrow> Inl ValueError
         | Some n \<Rightarrow> Inr (if neg then - int n else int n))"

section \<open>battleship.py: the board\<close>

text \<open>
  An entry of \<open>placed_ships\<close> is the dict \<open>{'name': ..., 'positions': set of (r, c)}\<close>;
  a Python set is finite, hence \<^typ>\<open>(int \<times> int) fset\<close>.
\<close>

record ship =
  name :: string
  positions :: "(int \<times> int) fset"

text \<open>class \<open>Board\<close>; the field \<open>size\<close> is called \<open>bsize\<close> here.\<close>

record board =
  bsize :: int
  hidden_grid :: "char list list"
  display_grid :: "char list list"
  placed_ships :: "ship list"

text \<open>\<open>Board.__init__\<close>\<close>

definition new_board :: "int \<Rightarrow> board" where
  "new_board n =
     \<lparr> bsize = n,
       hidden_grid = replicate (nat n) (replicate (nat n) CHR ''.''),
       display_grid = replicate (nat n) (replicate (nat n) CHR ''.''),
       placed_ships = [] \<rparr>"

text \<open>
  \<open>Board._mark_hit_and_check_sunk\<close>: the first ship holding the cell loses it; the
  ship's name is returned when that leaves it without cells, \<open>None\<close> otherwise.
  The second component is \<open>placed_ships\<close> after the call.
\<close>

fun mark_hit_and_check_sunk :: "ship list \<Rightarrow> int \<Rightarrow> int \<Rightarrow> string option \<times> ship list" where
  "mark_hit_and_check_sunk [] row col = (None, [])"
| "mark_hit_and_check_sunk (s # ss) row col =
     (if (row, col) |\<in>| positions s
      then (let s' = s\<lparr>positions := positions s |-| {|(row, col)|}\<rparr>
            in (if fcard (positions s') = 0 then Some (name s') else None, s' # ss))
      else (case mark_hit_and_check_sunk ss row col of (r, ss') \<Rightarrow> (r, s # ss')))"

text \<open>
  \<open>Board.fire_at\<close>. \<open>if sunk_ship_name:\<close> is Python truthiness: a name that is the
  empty string counts as no name.
\<close>

definition fire_at :: "board \<Rightarrow> int \<Rightarrow> int \<Rightarrow> py_error + ((string \<times> string option) \<times> board)" where
  "fire_at b row col =
     (case grid_get (hidden_grid b) row col of Inl e \<Rightarrow> Inl e
      | Inr cell \<Rightarrow>
          if cell = CHR ''S'' then
            (case grid_set (hidden_grid b) row col CHR ''X'' of Inl e \<Rightarrow> Inl e
             | Inr h \<Rightarrow>
                 (case grid_set (display_grid b) row col CHR ''X'' of Inl e \<Rightarrow> Inl e
                  | Inr d \<Rightarrow>
                      (case mark_hit_and_check_sunk (placed_ships b) row col of
                         (sunk_ship_name, ships) \<Rightarrow>
                           Inr ((''hit'',
                                 (case sunk_ship_name of None \<Rightarrow> None
                                  | Some n \<Rightarrow> if n \<noteq> [] then Some n else None)),
                                b\<lparr>hidden_grid := h, display_grid := d, placed_ships := ships\<rparr>))))
          else if cell = CHR ''.'' then
            (case grid_set (hidden_grid b) row col CHR ''o'' of Inl e \<Rightarrow> Inl e
             | Inr h \<Rightarrow>
                 (case grid_set (display_grid b) row col CHR ''o'' of Inl e \<Rightarrow> Inl e
                  | Inr d \<Rightarrow> Inr ((''miss'', None), b\<lparr>hidden_grid := h, display_grid := d\<rparr>)))
          else if cell = CHR ''X'' \<or> cell = CHR ''o'' then Inr ((''already_shot'', None), b)
          else Inr ((''already_shot'', None), b))"

text \<open>\<open>Board.all_ships_sunk\<close>\<close>

fun all_ships_sunk_loop :: "ship list \<Rightarrow> bool" where
  "all_ships_sunk_loop [] = True"
| "all_ships_sunk_loop (s # ss) = (if fcard (positions s) > 0 then False else all_ships_sunk_loop ss)"

definition all_ships_sunk :: "board \<Rightarrow> bool" where
  "all_ships_sunk b = all_ships_sunk_loop (placed_ships b)"

text \<open>\<open>range(a, b)\<close>\<close>

definition py_range :: "int \<Rightarrow> int \<Rightarrow> int list" where
  "py_range a b = [a..b - 1]"

text \<open>
  The cells a ship of length \<open>ship_size\<close> at \<open>(row, col)\<close> covers, in the order the
  loops of \<open>can_place_ship\<close> and \<open>do_place_ship\<close> visit them
  (orientation 0 is horizontal, anything else vertical).
\<close>

definition ship_cells :: "int \<Rightarrow> int \<Rightarrow> int \<Rightarrow> int \<Rightarrow> (int \<times> int) list" where
  "ship_cells row col ship_size orientation =
     (if orientation = 0 then map (\<lambda>c. (row, c)) (py_range col (col + ship_size))
      else map (\<lambda>r. (r, col)) (py_range row (row + ship_size)))"

text \<open>The loop of \<open>can_place_ship\<close>: \<open>False\<close> at the first cell that is not \<open>'.'\<close>.\<close>

fun cells_free :: "char list list \<Rightarrow> (int \<times> int) list \<Rightarrow> py_error + bool" where
  "cells_free g [] = Inr True"
| "cells_free g ((r, c) # ps) =
     (case grid_get g r c of Inl e \<Rightarrow> Inl e
      | Inr x \<Rightarrow> if x \<noteq> CHR ''.'' then Inr False else cells_free g ps)"

text \<open>\<open>Board.can_place_ship\<close>\<close>

definition can_place_ship :: "board \<Rightarrow> int \<Rightarrow> int \<Rightarrow> int \<Rightarrow> int \<Rightarrow> py_error + bool" where
  "can_place_ship b row col ship_size orientation =
     (if orientation = 0 then
        (if col + ship_size > bsize b then Inr False
         else cells_free (hidden_grid b) (ship_cells row col ship_size orientation))
      else
        (if row + ship_size > bsize b then Inr False
         else cells_free (hidden_grid b) (ship_cells row col ship_size orientation)))"

text \<open>The loop of \<open>do_place_ship\<close>: each cell becomes \<open>'S'\<close> and joins \<open>occupied\<close>.\<close>

fun mark_cells :: "char list list \<Rightarrow> (int \<times> int) fset \<Rightarrow> (int \<times> int) list \<Rightarrow>
    py_error + (char list list \<times> (int \<times> int) fset)" where
  "mark_cells g occupied [] = Inr (g, occupied)"
| "mark_cells g occupied ((r, c) # ps) =
     (case grid_set g r c CHR ''S'' of Inl e \<Rightarrow> Inl e
      | Inr g' \<Rightarrow> mark_cells g' (finsert (r, c) occupied) ps)"

text \<open>\<open>Board.do_place_ship\<close>: the set of occupied positions and the board after it.\<close>

definition do_place_ship :: "board \<Rightarrow> int \<Rightarrow> int \<Rightarrow> int \<Rightarrow> int \<Rightarrow>
    py_error + ((int \<times> int) fset \<times> board)" where
  "do_place_ship b row col ship_size orientation =
     (case mark_cells (hidden_grid b) {||} (ship_cells row col ship_size orientation) of
        Inl e \<Rightarrow> Inl e
      | Inr (g, occupied) \<Rightarrow> Inr (occupied, b\<lparr>hidden_grid := g\<rparr>))"

text \<open>
  The placement step shared by \<open>place_ships_randomly\<close>, \<open>place_ships_manually\<close> and
  \<open>place_ships_manually_mp\<close>: when \<open>can_place_ship\<close> holds, \<open>do_place_ship\<close> runs and
  the ship is appended to \<open>placed_ships\<close>; \<open>None\<close> when the ship cannot be placed.
\<close>

definition place_ship :: "board \<Rightarrow> string \<Rightarrow> int \<Rightarrow> int \<Rightarrow> int \<Rightarrow> int \<Rightarrow> py_error + board option" where
  "place_ship b ship_name ship_size row col orientation =
     (case can_place_ship b row col ship_size orientation of
        Inl e \<Rightarrow> Inl e
      | Inr False \<Rightarrow> Inr None
      | Inr True \<Rightarrow>
          (case do_place_ship b row col ship_size orientation of
             Inl e \<Rightarrow> Inl e
           | Inr (occupied_positions, b') \<Rightarrow>
               Inr (Some (b'\<lparr>placed_ships :=
                     placed_ships b' @ [\<lparr>name = ship_name, positions = occupied_positions\<rparr>]\<rparr>))))"

text \<open>\<open>parse_coordinate\<close>: \<open>IndexError\<close> on an empty string, \<open>ValueError\<close> from \<open>int\<close>.\<close>

definition parse_coordinate :: "string \<Rightarrow> py_error + (int \<times> int)" where
  "parse_coordinate coord_str =
     (let s = py_upper (py_strip coord_str) in
      case py_get s 0 of
        Inl e \<Rightarrow> Inl e
      | Inr row_letter \<Rightarrow>
          (let col_digits = drop 1 s;
               row = ord row_letter - ord CHR ''A''
           in case py_int 10 col_digits of
                Inl e \<Rightarrow> Inl e
              | Inr n \<Rightarrow> Inr (row, n - 1)))"

text \<open>
  \<open>validate_coordinate\<close> of \<open>run_multi_player_game_online\<close>: only \<open>ValueError\<close> is
  caught, any other exception leaves the function.
\<close>

definition validate_coordinate :: "board \<Rightarrow> string \<Rightarrow> py_error + (int \<times> int) option" where
  "validate_coordinate b coord_str =
     (case parse_coordinate coord_str of
        Inl ValueError \<Rightarrow> Inr None
      | Inl e \<Rightarrow> Inl e
      | Inr (row, col) \<Rightarrow>
          if 0 \<le> row \<and> row < bsize b \<and> 0 \<le> col \<and> col < bsize b then Inr (Some (row, col))
          else Inr None)"

text \<open>A board of the shape \<open>__init__\<close> builds: both grids are \<open>size\<close> rows of \<open>size\<close> cells.\<close>

definition square_grid :: "int \<Rightarrow> 'a list list \<Rightarrow> bool" where
  "square_grid n g = (int (length g) = n \<and> list_all (\<lambda>rw. int (length rw) = n) g)"

definition board_shape :: "board \<Rightarrow> bool" where
  "board_shape b = (square_grid (bsize b) (hidden_grid b) \<and> square_grid (bsize b) (display_grid b))"

text \<open>A run of shots: \<open>fire_at\<close> for each cell in turn, with every result.\<close>

fun fire_all :: "board \<Rightarrow> (int \<times> int) list \<Rightarrow> py_error + ((string \<times> string option) list \<times> board)" where
  "fire_all b [] = Inr ([], b)"
| "fire_all b ((r, c) # ps) =
     (case fire_at b r c of Inl e \<Rightarrow> Inl e
      | Inr (res, b') \<Rightarrow>
          (case fire_all b' ps of Inl e \<Rightarrow> Inl e
           | Inr (rs, b'') \<Rightarrow> Inr (res # rs, b'')))"





section \<open>battleship.py: one turn\<close>

text \<open>
  \<open>run_multi_player_game_online\<close> talks to the player whose turn it is through
  \<open>packet_send\<close> and to the waiting player through \<open>other_packet_send\<close>.
\<close>

datatype peer = Active | Waiting

text \<open>What a turn returns: the first component of the tuple, with the rest for \<open>turn_completed\<close>.\<close>

datatype turn_result =
    game_finished
  | all_forfeit
  | player_dc
  | other_player_dc
  | turn_completed string string "string option"
  | timeout






text \<open>
  The hits scored on a ship: the cells it was placed on that show \<open>'X'\<close> in
  \<open>hidden_grid\<close>, read the way the board reads them.
\<close>

definition ship_hits :: "board \<Rightarrow> (int \<times> int) list \<Rightarrow> nat" where
  "ship_hits b cells =
     length (filter (\<lambda>(r, c). grid_get (hidden_grid b) r c = Inr CHR ''X'') cells)"

section \<open>The framed protocol\<close>

text \<open>
  \<open>zlib.crc32\<close> is the library's CRC-32 (reflected polynomial \<open>0xEDB88320\<close>, register
  preset to and finally inverted with \<open>0xFFFFFFFF\<close>), written out bit by bit.
  \<open>msg.encode()\<close> is UTF-8, on ASCII text the characters themselves.
\<close>

definition crc_shift :: "32 word \<Rightarrow> 32 word" where
  "crc_shift s = (if bit s 0 then drop_bit 1 s XOR 0xEDB88320 else drop_bit 1 s)"

definition crc_byte :: "32 word \<Rightarrow> char \<Rightarrow> 32 word" where
  "crc_byte s c = (crc_shift ^^ 8) (s XOR of_char c)"

definition crc_register :: "string \<Rightarrow> 32 word" where
  "crc_register bs = foldl crc_byte 0xFFFFFFFF bs"

definition crc32 :: "string \<Rightarrow> nat" where
  "crc32 bs = unat (NOT (crc_register bs))"




abbreviation NL :: char where
  "NL \<equiv> CHR 0x0A"






section \<open>client.py: the receiver\<close>









section \<open>server.py\<close>

text \<open>
  A queued client is the tuple \<open>(conn, rfile, wfile, uname)\<close>; \<open>rfile\<close> and \<open>wfile\<close>
  are the two files of the socket \<open>conn\<close>, so a connection number stands for all three.
\<close>

record session =
  conn :: nat
  uname :: string

text \<open>
  The fields of \<open>GameServer\<close>. \<open>dced_player\<close> and \<open>rced_player\<close> start as \<open>None\<close>.
\<close>

record server =
  client_queue :: "session list"
  dced_player :: "string option"
  rced_player :: "session option"
  game_running :: bool

definition MAX_QUEUE_SIZE :: nat where
  "MAX_QUEUE_SIZE = 10"

text \<open>
  What the server does, in order: \<open>packet_send\<close> of a message on a connection, a bare
  \<open>wfile.write\<close> and \<open>flush\<close>, \<open>conn.close()\<close>, \<open>broadcast_to_spectators\<close> and
  \<open>broadcast_board_to_spectators\<close> (of the board of one player). The two broadcasts
  swallow the connection errors of the spectators.
\<close>

datatype event =
    Packet nat string
  | RawWrite nat string
  | ConnClose nat
  | Broadcast string
  | BroadcastBoard nat

text \<open>
  How \<open>handle_client\<close> leaves its \<open>with self.lock\<close> block: the session went to the
  reconnect slot, it was appended to the queue (the function goes on to the chat room
  or the match), the queue was full, or \<open>packet_send\<close> raised.
\<close>

datatype admission = Reconnected | Enqueued | Refused | Failed py_error

text \<open>
  \<open>handle_client\<close> up to the end of the \<open>with self.lock\<close> block, for the connection
  \<open>c\<close> whose first line is \<open>line\<close>. \<open>ack c m\<close> says that the peer of \<open>c\<close> acknowledges
  message \<open>m\<close> within the attempts of \<open>packet_send\<close>. Both \<open>return\<close>s leave
  \<open>with conn\<close>, which closes the connection.
\<close>

definition handle_client :: "(nat \<Rightarrow> string \<Rightarrow> bool) \<Rightarrow> server \<Rightarrow> nat \<Rightarrow> string \<Rightarrow>
    event list \<times> admission \<times> server" where
  "handle_client ack srv c line =
     (if length (client_queue srv) < MAX_QUEUE_SIZE then
        (if \<not> ack c ''1;Please enter your username:'' then
           ([Packet c ''1;Please enter your username:'', ConnClose c], Failed BrokenPipeError, srv)
         else
           (let un = py_strip line in
            if Some un = dced_player srv then
              ([Packet c ''1;Please enter your username:'', ConnClose c], Reconnected,
               srv\<lparr>rced_player := Some \<lparr>conn = c, uname = un\<rparr>\<rparr>)
            else
              (let srv' = srv\<lparr>client_queue := client_queue srv @ [\<lparr>conn = c, uname = un\<rparr>]\<rparr> in
               if \<not> ack c ''2;You're in queue. Waiting for match...'' then
                 ([Packet c ''1;Please enter your username:'',
                   Packet c ''2;You're in queue. Waiting for match...'', ConnClose c],
                  Failed BrokenPipeError, srv')
               else
                 ([Packet c ''1;Please enter your username:'',
                   Packet c ''2;You're in queue. Waiting for match...''], Enqueued, srv'))))
      else
        ([Packet c ''2;[NOTICE] Queue is full, please try again later.'', ConnClose c],
         (if ack c ''2;[NOTICE] Queue is full, please try again later.'' then Refused
          else Failed BrokenPipeError), srv))"

text \<open>
  The loop \<open>for i in range(60)\<close> of \<open>client_reconnected\<close>. \<open>slot i\<close> is
  \<open>self.rced_player\<close> as check \<open>i\<close> reads it (the threads of \<open>handle_client\<close> write
  it); a session is truthy. The result is the session found, if any, and the number of
  \<open>time.sleep(1)\<close> calls made.
\<close>

fun reconnect_poll :: "nat \<Rightarrow> nat \<Rightarrow> (nat \<Rightarrow> session option) \<Rightarrow> session option \<times> nat" where
  "reconnect_poll 0 i slot = (None, i)"
| "reconnect_poll (Suc n) i slot =
     (case slot i of Some r \<Rightarrow> (Some r, i) | None \<Rightarrow> reconnect_poll n (Suc i) slot)"

text \<open>
  \<open>client_reconnected\<close>: on a session in the slot, every player with its user name is
  replaced by it and both slots are cleared.
\<close>

definition client_reconnected :: "(nat \<Rightarrow> session option) \<Rightarrow> server \<Rightarrow> session list \<Rightarrow>
    bool \<times> server \<times> session list" where
  "client_reconnected slot srv players =
     (case fst (reconnect_poll 60 0 slot) of
        None \<Rightarrow> (False, srv, players)
      | Some r \<Rightarrow>
          (True, srv\<lparr>rced_player := None, dced_player := None\<rparr>,
           map (\<lambda>p. if uname p = uname r then r else p) players))"

text \<open>
  The state of the \<open>while True\<close> loop of \<open>run_game\<close>. \<open>player1_skipped\<close> belongs to
  \<open>players[0]\<close> and \<open>player2_skipped\<close> to \<open>players[1]\<close>.
\<close>

record game =
  players :: "session list"
  current_player :: nat
  player1_skipped :: bool
  player2_skipped :: bool

datatype flow = Continue | Break | Raised py_error

text \<open>\<open>players.pop(i)\<close>\<close>

definition pop :: "'a list \<Rightarrow> nat \<Rightarrow> 'a list" where
  "pop xs i = take i xs @ drop (Suc i) xs"

text \<open>
  One pass through the loop of \<open>run_game\<close>, for the value \<open>result\<close> that the turn
  returned. \<open>current_player\<close> is 0 or 1, so that \<open>1 - current_player\<close> is the other
  index. \<open>me\<close> and \<open>opp\<close> are the tuples unpacked at the top of the pass: the
  \<open>rfile\<close> and \<open>wfile\<close> used further down are theirs, whatever \<open>client_reconnected\<close>
  stores in \<open>players\<close> meanwhile. A \<open>packet_send\<close> that raises leaves the loop
  through the \<open>except\<close> clause of \<open>run_game\<close>.
\<close>

definition game_turn :: "(nat \<Rightarrow> string \<Rightarrow> bool) \<Rightarrow> (nat \<Rightarrow> session option) \<Rightarrow> turn_result \<Rightarrow>
    server \<Rightarrow> game \<Rightarrow> event list \<times> flow \<times> server \<times> game" where
  "game_turn ack slot result srv g =
     (if length (players g) < 2 then ([], Raised IndexError, srv, g)
      else
        (let cp = current_player g;
             me = players g ! cp;
             opp = players g ! (1 - cp);
             announce = Broadcast (uname me @ '''s turn.'')
         in case result of
              game_finished \<Rightarrow>
                ([announce,
                  Broadcast (''Game over! All ships sunk. '' @ uname me @ '' wins!''),
                  Broadcast (uname me @ '''s board state:'' @ [NL]),
                  BroadcastBoard cp,
                  Broadcast (uname opp @ '''s board state:'' @ [NL]),
                  BroadcastBoard (1 - cp)], Break, srv, g)
            | all_forfeit \<Rightarrow> ([announce], Break, srv, g\<lparr>players := []\<rparr>)
            | player_dc \<Rightarrow>
                (case client_reconnected slot (srv\<lparr>dced_player := Some (uname me)\<rparr>) (players g) of
                   (True, srv', ps) \<Rightarrow>
                     ([announce, Packet (conn me) (''5;Welcome back, '' @ uname me)],
                      (if ack (conn me) (''5;Welcome back, '' @ uname me) then Continue
                       else Raised BrokenPipeError),
                      srv', g\<lparr>players := ps\<rparr>)
                 | (False, srv', ps) \<Rightarrow> ([announce], Break, srv', g\<lparr>players := pop ps cp\<rparr>))
            | other_player_dc \<Rightarrow>
                (case client_reconnected slot (srv\<lparr>dced_player := Some (uname opp)\<rparr>) (players g) of
                   (True, srv', ps) \<Rightarrow>
                     ([announce, Packet (conn opp) (''5;Welcome back, '' @ uname opp)],
                      (if ack (conn opp) (''5;Welcome back, '' @ uname opp) then Continue
                       else Raised BrokenPipeError),
                      srv', g\<lparr>players := ps\<rparr>)
                 | (False, srv', ps) \<Rightarrow> ([announce], Break, srv', g\<lparr>players := pop ps (1 - cp)\<rparr>))
            | turn_completed coord hit_result sunk_name \<Rightarrow>
                ([announce,
                  Broadcast (uname me @ '' fired at '' @ coord @ '': '' @ hit_result @
                     (case sunk_name of None \<Rightarrow> []
                      | Some n \<Rightarrow> if n \<noteq> [] then '' (Sank '' @ n @ '')'' else [])),
                  Broadcast (uname opp @ '''s board state:'' @ [NL]),
                  BroadcastBoard (1 - cp)],
                 Continue, srv,
                 (if cp = 0 then g\<lparr>player1_skipped := False\<rparr> else g\<lparr>player2_skipped := False\<rparr>)
                   \<lparr>current_player := 1 - cp\<rparr>)
            | timeout \<Rightarrow>
                (let g' = g\<lparr>current_player := 1 - cp\<rparr>;
                     notice = Broadcast (uname me @ '' has timed out, their turn will be skipped'');
                     game_over = ''0;GAME_OVER '' @ uname me @ '' is AFK, immediate forfeit, You Win!''
                 in if current_player g' = 1 \<and> \<not> player1_skipped g' then
                      ([announce, notice], Continue, srv, g'\<lparr>player1_skipped := True\<rparr>)
                    else if current_player g' \<noteq> 1 \<and> \<not> player2_skipped g' then
                      ([announce, notice], Continue, srv, g'\<lparr>player2_skipped := True\<rparr>)
                    else if ack (conn opp) game_over then
                      ([announce, notice, Packet (conn opp) game_over,
                        RawWrite (conn me) (''X'' @ [NL]), ConnClose (conn me)], Break, srv, g')
                    else
                      ([announce, notice, Packet (conn opp) game_over],
                       Raised BrokenPipeError, srv, g'))))"

text \<open>
  The loop of \<open>run_game\<close> over the results of the turns that were played, as far as
  they go: it stops at the first pass that does not \<open>continue\<close>.
\<close>

fun game_loop :: "(nat \<Rightarrow> string \<Rightarrow> bool) \<Rightarrow> ((nat \<Rightarrow> session option) \<times> turn_result) list \<Rightarrow>
    server \<Rightarrow> game \<Rightarrow> event list \<times> flow \<times> server \<times> game" where
  "game_loop ack [] srv g = ([], Continue, srv, g)"
| "game_loop ack ((slot, result) # rest) srv g =
     (case game_turn ack slot result srv g of
        (ev, Continue, srv', g') \<Rightarrow>
          (case game_loop ack rest srv' g' of (ev', fl, srv'', g'') \<Rightarrow> (ev @ ev', fl, srv'', g''))
      | (ev, fl, srv', g') \<Rightarrow> (ev, fl, srv', g'))"

text \<open>
  Who played each of those turns and how it ended: the history of a run that is still
  going on.
\<close>

fun game_history :: "(nat \<Rightarrow> string \<Rightarrow> bool) \<Rightarrow> ((nat \<Rightarrow> session option) \<times> turn_result) list \<Rightarrow>
    server \<Rightarrow> game \<Rightarrow> (nat \<times> turn_result) list" where
  "game_history ack [] srv g = []"
| "game_history ack ((slot, result) # rest) srv g =
     (current_player g, result) #
     (case game_turn ack slot result srv g of
        (ev, Continue, srv', g') \<Rightarrow> game_history ack rest srv' g'
      | (ev, fl, srv', g') \<Rightarrow> [])"

text \<open>
  What holds at the top of every pass: two players, and \<open>current_player\<close> is 0 or 1
  (\<open>random.randint(0, 1)\<close> at the start, \<open>1 - current_player\<close> afterwards).
\<close>

definition game_ok :: "game \<Rightarrow> bool" where
  "game_ok g = (current_player g < 2 \<and> length (players g) = 2)"

text \<open>The skip flag of player \<open>p\<close> (0 or 1).\<close>

definition skipped :: "game \<Rightarrow> nat \<Rightarrow> bool" where
  "skipped g p = (if p = 0 then player1_skipped g else player2_skipped g)"

text \<open>
  A turn that ended, with a shot (\<open>turn_completed\<close>) or with the timer (\<open>timeout\<close>);
  the ended turns of player \<open>p\<close> in a history, and whether the last of them was
  skipped.
\<close>

definition ended :: "turn_result \<Rightarrow> bool" where
  "ended r = (case r of timeout \<Rightarrow> True | turn_completed x y z \<Rightarrow> True | _ \<Rightarrow> False)"

definition own_turns :: "nat \<Rightarrow> (nat \<times> turn_result) list \<Rightarrow> turn_result list" where
  "own_turns p h = map snd (filter (\<lambda>(q, r). q = p \<and> ended r) h)"

definition last_turn_skipped :: "nat \<Rightarrow> (nat \<times> turn_result) list \<Rightarrow> bool" where
  "last_turn_skipped p h = (own_turns p h \<noteq> [] \<and> last (own_turns p h) = timeout)"

text \<open>
  The two ways \<open>run_game\<close> hands players back to the lobby. After a failed placement
  (\<open>for p in remaining_players\<close> under the lock): notice, then \<open>appendleft\<close>.
\<close>

fun requeue_front :: "(nat \<Rightarrow> string \<Rightarrow> bool) \<Rightarrow> server \<Rightarrow> session list \<Rightarrow>
    event list \<times> (py_error + unit) \<times> server" where
  "requeue_front ack srv [] = ([], Inr (), srv)"
| "requeue_front ack srv (p # ps) =
     (if ack (conn p) ''2;Other Player disconnected, looking for new opponent..'' then
        (case requeue_front ack (srv\<lparr>client_queue := p # client_queue srv\<rparr>) ps of
           (ev, r, srv') \<Rightarrow>
             (Packet (conn p) ''2;Other Player disconnected, looking for new opponent..'' # ev, r, srv'))
      else ([Packet (conn p) ''2;Other Player disconnected, looking for new opponent..''],
            Inl BrokenPipeError, srv))"

text \<open>At the end of a match: notice, then \<open>append\<close>.\<close>

fun requeue_back :: "(nat \<Rightarrow> string \<Rightarrow> bool) \<Rightarrow> server \<Rightarrow> session list \<Rightarrow>
    event list \<times> (py_error + unit) \<times> server" where
  "requeue_back ack srv [] = ([], Inr (), srv)"
| "requeue_back ack srv (p # ps) =
     (if ack (conn p) ''2;You're back in the queue, waiting for match..'' then
        (case requeue_back ack (srv\<lparr>client_queue := client_queue srv @ [p]\<rparr>) ps of
           (ev, r, srv') \<Rightarrow>
             (Packet (conn p) ''2;You're back in the queue, waiting for match..'' # ev, r, srv'))
      else ([Packet (conn p) ''2;You're back in the queue, waiting for match..''],
            Inl BrokenPipeError, srv))"

text \<open>
  \<open>run_game\<close> after the placement threads, when a board is missing. \<open>placed\<close> holds
  the players whose board is there. \<open>broadcast_board_to_spectators\<close> is called with a
  string: for the first queued client, \<open>board.print_display_grid_mp\<close> raises
  \<open>AttributeError\<close>, which nothing catches.
\<close>

definition placement_cancelled :: "(nat \<Rightarrow> string \<Rightarrow> bool) \<Rightarrow> server \<Rightarrow> session list \<Rightarrow>
    (session \<Rightarrow> bool) \<Rightarrow> event list \<times> (py_error + unit) \<times> server" where
  "placement_cancelled ack srv ps placed =
     (if client_queue srv \<noteq> [] then ([], Inl AttributeError, srv)
      else (case requeue_front ack srv (filter placed ps) of
              (ev, r, srv') \<Rightarrow>
                (map (\<lambda>p. ConnClose (conn p)) (filter (\<lambda>p. \<not> placed p) ps) @ ev, r, srv')))"

text \<open>
  \<open>run_game\<close> after the loop. \<open>connected c\<close> says that \<open>conn.getpeername()\<close> succeeds
  on connection \<open>c\<close>.
\<close>

definition end_of_game :: "(nat \<Rightarrow> string \<Rightarrow> bool) \<Rightarrow> (nat \<Rightarrow> bool) \<Rightarrow> server \<Rightarrow> session list \<Rightarrow>
    event list \<times> (py_error + unit) \<times> server" where
  "end_of_game ack connected srv ps =
     (let remaining_players = filter (\<lambda>p. connected (conn p)) ps;
          closes = map (\<lambda>p. ConnClose (conn p)) (filter (\<lambda>p. \<not> connected (conn p)) ps);
          start = Broadcast ''Game ended. Waiting for next match.'' # closes
      in if length remaining_players = 1 \<and>
            \<not> ack (conn (hd remaining_players)) ''2;[Opponent disconnected] You win!'' then
           (start @ [Packet (conn (hd remaining_players)) ''2;[Opponent disconnected] You win!''],
            Inl BrokenPipeError, srv)
         else
           (case requeue_back ack srv remaining_players of
              (ev, r, srv') \<Rightarrow>
                (start @
                 (if length remaining_players = 1
                  then [Packet (conn (hd remaining_players)) ''2;[Opponent disconnected] You win!'']
                  else []) @ ev, r, srv')))"



section \<open>Properties of the board\<close>

lemma py_index_in_range: "0 \<le> i \<Longrightarrow> i < int (length xs) \<Longrightarrow> py_index xs i = Some (nat i)"
  by (simp add: py_index_def)

lemma py_index_bound: "py_index xs i = Some j \<Longrightarrow> j < length xs"
  by (auto simp: py_index_def Let_def split: if_splits)

lemma grid_get_set:
  "grid_set g r c v = Inr g' \<Longrightarrow> grid_get g' r c = Inr v"
  by (auto simp: grid_set_def grid_get_def py_get_def py_set_def py_index_def Let_def
           split: option.splits sum.splits if_splits)

lemma grid_set_total:
  assumes "square_grid n g" "0 \<le> r" "r < n" "0 \<le> c" "c < n"
  shows "\<exists>g'. grid_set g r c v = Inr g'"
proof -
  from assms have len: "int (length g) = n" and row: "int (length (g ! nat r)) = n"
    by (auto simp: square_grid_def list_all_length)
  from assms len have "py_index g r = Some (nat r)" by (simp add: py_index_in_range)
  moreover from assms row have "py_index (g ! nat r) c = Some (nat c)" by (simp add: py_index_in_range)
  ultimately show ?thesis by (simp add: grid_set_def py_set_def)
qed

lemma grid_get_total:
  assumes "square_grid n g" "0 \<le> r" "r < n" "0 \<le> c" "c < n"
  shows "\<exists>x. grid_get g r c = Inr x"
proof -
  from assms have len: "int (length g) = n" and row: "int (length (g ! nat r)) = n"
    by (auto simp: square_grid_def list_all_length)
  from assms len have "py_index g r = Some (nat r)" by (simp add: py_index_in_range)
  moreover from assms row have "py_index (g ! nat r) c = Some (nat c)" by (simp add: py_index_in_range)
  ultimately show ?thesis by (simp add: grid_get_def py_get_def)
qed

lemma fire_at_total:
  assumes "board_shape b" "0 \<le> r" "r < bsize b" "0 \<le> c" "c < bsize b"
  shows "\<exists>res b'. fire_at b r c = Inr (res, b')"
proof -
  from assms obtain cell where g: "grid_get (hidden_grid b) r c = Inr cell"
    using grid_get_total [of "bsize b" "hidden_grid b" r c] by (auto simp: board_shape_def)
  from assms obtain hX where hX: "grid_set (hidden_grid b) r c CHR ''X'' = Inr hX"
    using grid_set_total [of "bsize b" "hidden_grid b" r c] by (auto simp: board_shape_def)
  from assms obtain ho where ho: "grid_set (hidden_grid b) r c CHR ''o'' = Inr ho"
    using grid_set_total [of "bsize b" "hidden_grid b" r c] by (auto simp: board_shape_def)
  from assms obtain dX where dX: "grid_set (display_grid b) r c CHR ''X'' = Inr dX"
    using grid_set_total [of "bsize b" "display_grid b" r c] by (auto simp: board_shape_def)
  from assms obtain d0 where d0: "grid_set (display_grid b) r c CHR ''o'' = Inr d0"
    using grid_set_total [of "bsize b" "display_grid b" r c] by (auto simp: board_shape_def)
  show ?thesis
    by (simp add: fire_at_def g hX ho dX d0 split: prod.splits)
qed

lemma new_board_shape: "0 \<le> n \<Longrightarrow> board_shape (new_board n)"
  by (simp add: board_shape_def square_grid_def new_board_def list_all_iff)

lemma fire_at_again:
  assumes "fire_at b r c = Inr ((res, sunk), b')" "res \<noteq> ''already_shot''"
  shows "fire_at b' r c = Inr ((''already_shot'', None), b')"
proof -
  from assms have "grid_get (hidden_grid b') r c = Inr CHR ''X'' \<or> grid_get (hidden_grid b') r c = Inr CHR ''o''"
    by (auto simp: fire_at_def split: sum.splits if_splits prod.splits dest: grid_get_set)
  then show ?thesis by (auto simp: fire_at_def)
qed

text \<open>
  C4. On a board of the constructor's shape, firing at a cell \<open>(r, c)\<close> inside the board
  returns a result, and when that result is not \<open>already_shot\<close> a second shot at the
  same cell of the resulting board returns \<open>('already_shot', None)\<close>.
\<close>

theorem fire_at_then_already_shot:
  assumes "board_shape b" "0 \<le> r" "r < bsize b" "0 \<le> c" "c < bsize b"
  shows "\<exists>res sunk b'. fire_at b r c = Inr ((res, sunk), b') \<and>
           (res \<noteq> ''already_shot'' \<longrightarrow> fire_at b' r c = Inr ((''already_shot'', None), b'))"
proof -
  from fire_at_total [OF assms] obtain res sunk b' where f: "fire_at b r c = Inr ((res, sunk), b')"
    by auto
  then show ?thesis using fire_at_again [OF f] by auto
qed

theorem fire_at_then_already_shot_witness:
  "board_shape (new_board 10) \<and>
   (\<exists>res sunk b'. fire_at (new_board 10) 0 0 = Inr ((res, sunk), b') \<and> res = ''miss'' \<and>
       fire_at b' 0 0 = Inr ((''already_shot'', None), b'))"
proof -
  have s: "board_shape (new_board 10)"
    by (simp add: new_board_shape)
  obtain b' where m: "fire_at (new_board 10) 0 0 = Inr ((''miss'', None), b')"
    by (simp add: fire_at_def new_board_def grid_get_def grid_set_def py_get_def py_set_def
        py_index_def)
  from fire_at_then_already_shot [OF s, of 0 0] m
  have "fire_at b' 0 0 = Inr ((''already_shot'', None), b')"
    by (simp add: new_board_def)
  with s m show ?thesis by auto
qed

text \<open>
  C5. The placement of \<open>place_ships_manually_mp\<close> hands \<open>parse_coordinate\<close>'s pair to
  \<open>can_place_ship\<close> unchecked. \<open>A0 H\<close> is column \<open>-1\<close>: the Carrier is accepted,
  \<open>hidden_grid[0][-1]\<close> marks cell \<open>A10\<close>, and the position set records \<open>(0, -1)\<close>.
  The shot \<open>A10\<close> is a hit that removes nothing from the set: five cells remain with one
  hit scored. After all five ship cells are hit no shot has reported the ship sunk, one
  position remains, \<open>all_ships_sunk\<close> is false and \<open>A10\<close> is \<open>already_shot\<close>.
\<close>

theorem negative_column_placement_breaks_accounting:
  "parse_coordinate ''A0'' = Inr (0, -1) \<and>
   (case place_ship (new_board 10) ''Carrier'' 5 0 (-1) 0 of
      Inr (Some b1) \<Rightarrow>
        hidden_grid b1 = ''SSSS.....S'' # replicate 9 ''..........'' \<and>
        map positions (placed_ships b1) = [{|(0, -1), (0, 0), (0, 1), (0, 2), (0, 3)|}] \<and>
        validate_coordinate b1 ''A10'' = Inr (Some (0, 9)) \<and>
        (case fire_at b1 0 9 of
           Inr (res, b2) \<Rightarrow>
             res = (''hit'', None) \<and>
             map (fcard \<circ> positions) (placed_ships b2) = [5] \<and>
             ship_hits b2 (ship_cells 0 (-1) 5 0) = 1
         | Inl e \<Rightarrow> False) \<and>
        (case fire_all b1 [(0, 9), (0, 0), (0, 1), (0, 2), (0, 3)] of
           Inr (rs, b3) \<Rightarrow>
             rs = [(''hit'', None), (''hit'', None), (''hit'', None), (''hit'', None),
                   (''hit'', None)] \<and>
             hidden_grid b3 = ''XXXX.....X'' # replicate 9 ''..........'' \<and>
             map positions (placed_ships b3) = [{|(0, -1)|}] \<and>
             ship_hits b3 (ship_cells 0 (-1) 5 0) = 5 \<and>
             \<not> all_ships_sunk b3 \<and>
             fire_at b3 0 9 = Inr ((''already_shot'', None), b3)
         | Inl e \<Rightarrow> False)
    | _ \<Rightarrow> False)"
  by code_simp

section \<open>Properties of the coordinate check\<close>





lemma row_letters:
  "chr (ord CHR ''A'' + 0) = CHR ''A''" "chr (ord CHR ''A'' + 1) = CHR ''B''"
  "chr (ord CHR ''A'' + 2) = CHR ''C''" "chr (ord CHR ''A'' + 3) = CHR ''D''"
  "chr (ord CHR ''A'' + 4) = CHR ''E''" "chr (ord CHR ''A'' + 5) = CHR ''F''"
  "chr (ord CHR ''A'' + 6) = CHR ''G''" "chr (ord CHR ''A'' + 7) = CHR ''H''"
  "chr (ord CHR ''A'' + 8) = CHR ''I''" "chr (ord CHR ''A'' + 9) = CHR ''J''"
  by code_simp+




















section \<open>Properties of the checksum and the frame\<close>










































lemma crc_byte_unfold:
  "crc_byte s c = crc_shift (crc_shift (crc_shift (crc_shift (crc_shift (crc_shift (crc_shift
     (crc_shift (s XOR of_char c))))))))"
  by (simp add: crc_byte_def eval_nat_numeral)

lemmas crc_eval = crc32_def crc_register_def crc_byte_unfold crc_shift_def

lemma crc32_check_value: "crc32 ''123456789'' = 0xCBF43926"
  by (simp add: crc_eval)



















end
